theory Spec2Isabelle
  imports Complex_Main
begin

section \<open>DriveSight dashboard client: data model\<close>

text \<open>
  The client is three module singletons (\<^verbatim>\<open>DriveSightSocket\<close>, \<^verbatim>\<open>DriveSightAlerts\<close>,
  \<^verbatim>\<open>DriveSightMap\<close>) and the application controller. Their module variables are the
  fields of one record, \<open>page\<close>; every function of the source becomes a function that takes
  the page and returns the page it leaves. JavaScript runs the callbacks one at a time, so
  an execution is a sequence of such steps.
\<close>

subsection \<open>JSON payloads\<close>

text \<open>An alert as the alert panel reads it (\<^verbatim>\<open>alerts.js\<close>, \<^verbatim>\<open>_render\<close>).\<close>

record alert =
  alert_type :: string
  title :: string
  message :: string
  latitude :: real
  longitude :: real
  notified_chp :: bool
  created_at :: string

text \<open>
  A heat-map point as the server sends it. \<open>intensity = None\<close> is a point whose
  \<^verbatim>\<open>intensity\<close> key is missing (the property reads \<^verbatim>\<open>undefined\<close>).
\<close>

record point =
  lat :: real
  lng :: real
  intensity :: "real option"

record incident =
  incident_type :: string
  severity :: string
  camera_name :: string

text \<open>
  The object carried by a push frame or returned by a pull. Only the keys the client reads
  are kept; a key that is absent is \<open>None\<close>.
\<close>

record fields =
  d_alert :: "alert option"
  d_incident :: "incident option"
  d_heatmap :: "point list option"
  d_alerts :: "alert list option"
  d_connected :: "bool option"
  d_active_alerts :: "int option"
  d_cameras_active :: "int option"
  d_incidents_today :: "int option"

text \<open>
  An event may also arrive with no payload at all, and a response body may be \<^verbatim>\<open>null\<close>:
  \<^verbatim>\<open>data\<close> is then \<^verbatim>\<open>undefined\<close> or \<^verbatim>\<open>null\<close>, and reading a property of it raises a
  TypeError. \<open>Undefined\<close> stands for both.
\<close>

datatype json = Undefined | Obj fields

definition no_fields :: fields where
  "no_fields = \<lparr>d_alert = None, d_incident = None, d_heatmap = None, d_alerts = None,
     d_connected = None, d_active_alerts = None, d_cameras_active = None,
     d_incidents_today = None\<rparr>"

text \<open>What \<^verbatim>\<open>await fetch(..)\<close> followed by \<^verbatim>\<open>await resp.json()\<close> gives when it settles.\<close>

datatype response = NetworkError string | DecodeError string | Json json

subsection \<open>Completions\<close>

text \<open>
  A call either returns or throws; in both cases it leaves a state behind (a callback
  that throws half-way has already made its earlier assignments).
\<close>

datatype 's completion = Normal 's | Throw string 's

fun state_of :: "'s completion \<Rightarrow> 's" where
  "state_of (Normal s) = s"
| "state_of (Throw e s) = s"

fun returns :: "'s completion \<Rightarrow> bool" where
  "returns (Normal s) = True"
| "returns (Throw e s) = False"


subsection \<open>The page\<close>

text \<open>
  The elements the code looks up: \<^verbatim>\<open>alerts-container\<close>, \<^verbatim>\<open>alert-count-badge\<close>,
  \<^verbatim>\<open>dash-active-alerts\<close>, \<^verbatim>\<open>dash-cameras-online\<close>, \<^verbatim>\<open>dash-incidents-today\<close>,
  \<^verbatim>\<open>mockup-alerts\<close> and the \<^verbatim>\<open>.connection-status\<close> indicator.
\<close>

datatype elem = AlertsContainer | AlertCountBadge | DashActiveAlerts | DashCamerasOnline
  | DashIncidentsToday | MockupAlerts | ConnectionStatus

text \<open>
  What an element shows. The HTML templates themselves are the renderer's business; the
  model keeps which template was written and with which data.
\<close>

datatype content = Static | Num int | AllClear | AlertItems "alert list" | LoadFailed
  | Indicator bool

text \<open>
  Callbacks are compared by identity (\<^verbatim>\<open>cb !== callback\<close> in \<^verbatim>\<open>off\<close>), so each one has a
  name: the five the application registers, and \<open>Foreign n\<close> for any other function
  handed to \<^verbatim>\<open>DriveSightSocket.on\<close>.
\<close>

datatype callback = AlertsNewIncident | AlertsAlertUpdate | AppHeatmapUpdate
  | AppStatsUpdate | AppNewIncident | Foreign nat

text \<open>
  A socket.io socket as \<^verbatim>\<open>connect\<close> sets it up: the options passed to \<^verbatim>\<open>io\<close>, the events
  a handler was registered for, and the messages emitted on it so far.
\<close>

record transport =
  reconnection :: bool
  reconnectionDelay :: nat
  reconnectionAttempts :: nat
  registered :: "string list"
  outbox :: "string list"

text \<open>The pull endpoints, with the lookback window where the URL carries one.\<close>

datatype request = GetAlerts | GetHeatmap nat | GetIncidents nat | GetStats

record page =
  alerts :: "alert list"
  heatLayer :: "(real \<times> real \<times> real) list option"
  markerLayer :: "incident list option"
  document :: "elem \<rightharpoonup> content"
  console :: "string list"
  requests :: "request list"
  listeners :: "string \<rightharpoonup> callback list"
  socket :: "nat option"
  transports :: "transport list"

text \<open>
  \<open>alerts\<close> is the variable of \<^verbatim>\<open>DriveSightAlerts\<close>; \<open>heatLayer\<close> and \<open>markerLayer\<close> are those
  of \<^verbatim>\<open>DriveSightMap\<close> (\<open>None\<close> while still \<^verbatim>\<open>null\<close>, otherwise what the layer holds);
  \<open>listeners\<close> holds the own properties of the \<^verbatim>\<open>listeners\<close> object; \<open>socket\<close> is the
  variable of \<^verbatim>\<open>DriveSightSocket\<close>, a reference into \<open>transports\<close>, the sockets \<^verbatim>\<open>io\<close> has
  created. \<open>console\<close> and \<open>requests\<close> record the lines written to the console and the
  requests sent.
\<close>

definition console_line :: "string \<Rightarrow> page \<Rightarrow> page" where
  "console_line s p = p\<lparr>console := console p @ [s]\<rparr>"

definition fetch :: "request \<Rightarrow> page \<Rightarrow> page" where
  "fetch url p = p\<lparr>requests := requests p @ [url]\<rparr>"

text \<open>\<^verbatim>\<open>if (el) el.textContent = ..\<close>: an element that is not in the document is skipped.\<close>

definition set_content :: "elem \<Rightarrow> content \<Rightarrow> page \<Rightarrow> page" where
  "set_content e c p =
     (case document p e of
        None \<Rightarrow> p
      | Some old \<Rightarrow> p\<lparr>document := (document p)(e \<mapsto> c)\<rparr>)"

section \<open>Alert panel (\<^verbatim>\<open>alerts.js\<close>)\<close>

text \<open>
  \<^verbatim>\<open>_render\<close>: returns at once without the container; otherwise writes the number of
  alerts to the badge and to the dashboard counter, and the list (or the all-clear
  message) to the container.
\<close>

definition render :: "page \<Rightarrow> page" where
  "render p =
     (case document p AlertsContainer of
        None \<Rightarrow> p
      | Some el \<Rightarrow>
          set_content AlertsContainer
            (if length (alerts p) = 0 then AllClear else AlertItems (alerts p))
            (set_content DashActiveAlerts (Num (int (length (alerts p))))
              (set_content AlertCountBadge (Num (int (length (alerts p)))) p)))"

definition renderError :: "page \<Rightarrow> page" where
  "renderError p = set_content AlertsContainer LoadFailed p"

text \<open>
  \<^verbatim>\<open>_prependAlert\<close>: \<^verbatim>\<open>unshift\<close>, then \<^verbatim>\<open>slice(0, 30)\<close> when the list has grown past 30,
  then \<^verbatim>\<open>_render\<close>. The flash that follows only sets the CSS animation of the first
  rendered item and is left to the renderer.
\<close>

definition prependAlert :: "alert \<Rightarrow> page \<Rightarrow> page" where
  "prependAlert a p =
     (let unshifted = a # alerts p;
          kept = (if length unshifted > 30 then take 30 unshifted else unshifted)
      in render (p\<lparr>alerts := kept\<rparr>))"

text \<open>
  \<^verbatim>\<open>fetchAlerts\<close>, first half: the request goes out. Nothing is remembered about it.
\<close>

definition fetchAlerts :: "page \<Rightarrow> page" where
  "fetchAlerts p = fetch GetAlerts p"

text \<open>
  \<^verbatim>\<open>fetchAlerts\<close>, second half, run when the response settles. \<open>fetchAlerts_try\<close> is the
  body of the \<^verbatim>\<open>try\<close> block: a failed fetch or decode throws, and so does reading
  \<^verbatim>\<open>data.alerts\<close> of a body that is not an object; otherwise \<^verbatim>\<open>alerts = data.alerts || []\<close>
  and \<^verbatim>\<open>_render()\<close>. \<open>fetchAlerts_settle\<close> adds the \<^verbatim>\<open>catch\<close>: the error is written to
  the console and \<^verbatim>\<open>_renderError()\<close> runs. Its completion is that of the promise the
  \<^verbatim>\<open>async\<close> function returned: \<open>Normal\<close> is fulfilled, \<open>Throw\<close> is rejected.
\<close>

definition fetchAlerts_try :: "response \<Rightarrow> page \<Rightarrow> page completion" where
  "fetchAlerts_try r p =
     (case r of
        NetworkError e \<Rightarrow> Throw e p
      | DecodeError e \<Rightarrow> Throw e p
      | Json Undefined \<Rightarrow> Throw ''TypeError'' p
      | Json (Obj d) \<Rightarrow>
          Normal (render (p\<lparr>alerts := (case d_alerts d of None \<Rightarrow> [] | Some xs \<Rightarrow> xs)\<rparr>)))"

definition fetchAlerts_settle :: "response \<Rightarrow> page \<Rightarrow> page completion" where
  "fetchAlerts_settle r p =
     (case fetchAlerts_try r p of
        Normal q \<Rightarrow> Normal q
      | Throw e q \<Rightarrow> Normal (renderError (console_line (''[Alerts] Fetch error: '' @ e) q)))"

text \<open>
  The two callbacks \<^verbatim>\<open>init\<close> registers: on \<^verbatim>\<open>new_incident\<close>, prepend \<^verbatim>\<open>data.alert\<close> when
  there is one; on \<^verbatim>\<open>alert_update\<close>, pull the whole list again.
\<close>

definition alerts_on_new_incident :: "json \<Rightarrow> page \<Rightarrow> page completion" where
  "alerts_on_new_incident data p =
     (case data of
        Undefined \<Rightarrow> Throw ''TypeError'' p
      | Obj d \<Rightarrow> (case d_alert d of None \<Rightarrow> Normal p | Some a \<Rightarrow> Normal (prependAlert a p)))"

definition alerts_on_alert_update :: "json \<Rightarrow> page \<Rightarrow> page completion" where
  "alerts_on_alert_update data p = Normal (fetchAlerts p)"

text \<open>A run of push \<^verbatim>\<open>new_incident\<close> events, as the alert panel sees them.\<close>

definition push_new_incidents :: "json list \<Rightarrow> page \<Rightarrow> page" where
  "push_new_incidents ds p = foldl (\<lambda>q d. state_of (alerts_on_new_incident d q)) p ds"

text \<open>The alerts a run of events carries, oldest first.\<close>

fun carried :: "json list \<Rightarrow> alert list" where
  "carried [] = []"
| "carried (Undefined # ds) = carried ds"
| "carried (Obj d # ds) = (case d_alert d of None \<Rightarrow> carried ds | Some a \<Rightarrow> a # carried ds)"

section \<open>Map module (\<^verbatim>\<open>heatmap.js\<close>)\<close>

text \<open>\<^verbatim>\<open>init\<close> creates the two layers, both empty.\<close>

definition map_init :: "page \<Rightarrow> page" where
  "map_init p = p\<lparr>heatLayer := Some [], markerLayer := Some []\<rparr>"

text \<open>
  \<^verbatim>\<open>point.intensity || 0.5\<close>: the right operand is taken whenever the left one is falsy,
  which for a number means \<^verbatim>\<open>undefined\<close> and also zero.
\<close>

definition intensity_or_default :: "real option \<Rightarrow> real" where
  "intensity_or_default v =
     (case v of None \<Rightarrow> 0.5 | Some x \<Rightarrow> (if x = 0 then 0.5 else x))"

text \<open>
  \<^verbatim>\<open>updateHeatmap\<close>: nothing without a layer or without data; otherwise the layer's points
  are set to the mapped array.
\<close>

definition updateHeatmap :: "point list option \<Rightarrow> page \<Rightarrow> page" where
  "updateHeatmap heatmapData p =
     (case heatLayer p of
        None \<Rightarrow> p
      | Some layer \<Rightarrow>
          (case heatmapData of
             None \<Rightarrow> p
           | Some pts \<Rightarrow>
               p\<lparr>heatLayer :=
                   Some (map (\<lambda>pt. (lat pt, lng pt, intensity_or_default (intensity pt))) pts)\<rparr>))"

text \<open>
  \<^verbatim>\<open>addIncidentMarkers\<close>: clears the marker layer and adds one marker per incident. The
  popup text is the renderer's.
\<close>

definition addIncidentMarkers :: "incident list \<Rightarrow> page \<Rightarrow> page" where
  "addIncidentMarkers incidents p =
     (case markerLayer p of None \<Rightarrow> p | Some layer \<Rightarrow> p\<lparr>markerLayer := Some incidents\<rparr>)"

section \<open>Application controller\<close>

text \<open>
  \<^verbatim>\<open>updateStatDisplays\<close>: four (element, value) pairs, visited in the order the object
  literal lists them; a pair is written when the element exists and the value is not
  \<^verbatim>\<open>undefined\<close>. Reading the counters of a missing payload throws.
\<close>

definition stat_updates :: "fields \<Rightarrow> (elem \<times> int option) list" where
  "stat_updates d =
     [(DashActiveAlerts, d_active_alerts d),
      (DashCamerasOnline, d_cameras_active d),
      (DashIncidentsToday, d_incidents_today d),
      (MockupAlerts, d_incidents_today d)]"

definition write_stat :: "page \<Rightarrow> elem \<times> int option \<Rightarrow> page" where
  "write_stat p u =
     (case snd u of None \<Rightarrow> p | Some v \<Rightarrow> set_content (fst u) (Num v) p)"

definition updateStatDisplays :: "json \<Rightarrow> page \<Rightarrow> page completion" where
  "updateStatDisplays data p =
     (case data of
        Undefined \<Rightarrow> Throw ''TypeError'' p
      | Obj d \<Rightarrow> Normal (foldl write_stat p (stat_updates d)))"

text \<open>
  \<^verbatim>\<open>loadHeatmapData\<close>: the request carries the selected lookback window; when it settles,
  \<^verbatim>\<open>updateHeatmap(data.heatmap || [])\<close>, and any error goes to the console.
\<close>

definition loadHeatmapData :: "nat \<Rightarrow> page \<Rightarrow> page" where
  "loadHeatmapData hours p = fetch (GetHeatmap hours) p"

definition loadHeatmapData_try :: "response \<Rightarrow> page \<Rightarrow> page completion" where
  "loadHeatmapData_try r p =
     (case r of
        NetworkError e \<Rightarrow> Throw e p
      | DecodeError e \<Rightarrow> Throw e p
      | Json Undefined \<Rightarrow> Throw ''TypeError'' p
      | Json (Obj d) \<Rightarrow>
          Normal (updateHeatmap (Some (case d_heatmap d of None \<Rightarrow> [] | Some h \<Rightarrow> h)) p))"

definition loadHeatmapData_settle :: "response \<Rightarrow> page \<Rightarrow> page completion" where
  "loadHeatmapData_settle r p =
     (case loadHeatmapData_try r p of
        Normal q \<Rightarrow> Normal q
      | Throw e q \<Rightarrow> Normal (console_line (''[App] Heatmap load error: '' @ e) q))"

text \<open>
  \<^verbatim>\<open>loadStats\<close>: \<^verbatim>\<open>updateStatDisplays(data)\<close>, then \<^verbatim>\<open>updateCharts(data)\<close>, which only
  hands the counters to the chart objects and is the chart renderer's.
\<close>

definition loadStats :: "page \<Rightarrow> page" where
  "loadStats p = fetch GetStats p"

definition loadStats_try :: "response \<Rightarrow> page \<Rightarrow> page completion" where
  "loadStats_try r p =
     (case r of
        NetworkError e \<Rightarrow> Throw e p
      | DecodeError e \<Rightarrow> Throw e p
      | Json data \<Rightarrow> updateStatDisplays data p)"

definition loadStats_settle :: "response \<Rightarrow> page \<Rightarrow> page completion" where
  "loadStats_settle r p =
     (case loadStats_try r p of
        Normal q \<Rightarrow> Normal q
      | Throw e q \<Rightarrow> Normal (console_line (''[App] Stats load error: '' @ e) q))"

text \<open>The three callbacks \<^verbatim>\<open>initDashboard\<close> registers.\<close>

definition app_on_heatmap_update :: "json \<Rightarrow> page \<Rightarrow> page completion" where
  "app_on_heatmap_update data p =
     (case data of
        Undefined \<Rightarrow> Throw ''TypeError'' p
      | Obj d \<Rightarrow>
          (case d_heatmap d of None \<Rightarrow> Normal p | Some h \<Rightarrow> Normal (updateHeatmap (Some h) p)))"

definition app_on_stats_update :: "json \<Rightarrow> page \<Rightarrow> page completion" where
  "app_on_stats_update data p = updateStatDisplays data p"

definition app_on_new_incident :: "json \<Rightarrow> page \<Rightarrow> page completion" where
  "app_on_new_incident data p =
     (case data of
        Undefined \<Rightarrow> Throw ''TypeError'' p
      | Obj d \<Rightarrow>
          (case d_incident d of
             None \<Rightarrow> Normal p
           | Some i \<Rightarrow> Normal (addIncidentMarkers [i] p)))"

section \<open>Socket module\<close>

subsection \<open>The listener registry\<close>

text \<open>
  \<^verbatim>\<open>listeners\<close> is an object literal, so \<^verbatim>\<open>listeners[event]\<close> finds an own property (one
  of the five arrays), or else a property inherited from \<^verbatim>\<open>Object.prototype\<close>, or else
  \<^verbatim>\<open>undefined\<close>. The inherited values are functions (and, for \<^verbatim>\<open>__proto__\<close>, the
  prototype object): truthy, and without \<^verbatim>\<open>push\<close>, \<^verbatim>\<open>filter\<close> or \<^verbatim>\<open>forEach\<close>.
\<close>

datatype 'a property = Own 'a | Inherited | Missing

definition object_prototype_keys :: "string list" where
  "object_prototype_keys =
     [''constructor'', ''__proto__'', ''hasOwnProperty'', ''isPrototypeOf'',
      ''propertyIsEnumerable'', ''toLocaleString'', ''toString'', ''valueOf'',
      ''__defineGetter__'', ''__defineSetter__'', ''__lookupGetter__'', ''__lookupSetter__'']"

definition listeners_get :: "string \<Rightarrow> page \<Rightarrow> callback list property" where
  "listeners_get event p =
     (case listeners p event of
        Some cbs \<Rightarrow> Own cbs
      | None \<Rightarrow> (if event \<in> set object_prototype_keys then Inherited else Missing))"

definition initial_listeners :: "string \<rightharpoonup> callback list" where
  "initial_listeners =
     [''new_incident'' \<mapsto> [], ''alert_update'' \<mapsto> [], ''heatmap_update'' \<mapsto> [],
      ''stats_update'' \<mapsto> [], ''connection_change'' \<mapsto> []]"

text \<open>
  \<^verbatim>\<open>on\<close>: when \<^verbatim>\<open>listeners[event]\<close> is truthy, \<^verbatim>\<open>push\<close> is called on it. \<^verbatim>\<open>off\<close>: when it is
  truthy, it is replaced by a filtered copy (so an array a dispatch is walking is never
  changed under it, and \<^verbatim>\<open>push\<close> only lengthens it past the end the walk fixed).
\<close>

definition on :: "string \<Rightarrow> callback \<Rightarrow> page \<Rightarrow> page completion" where
  "on event cb p =
     (case listeners_get event p of
        Own cbs \<Rightarrow> Normal (p\<lparr>listeners := (listeners p)(event \<mapsto> cbs @ [cb])\<rparr>)
      | Inherited \<Rightarrow> Throw ''TypeError'' p
      | Missing \<Rightarrow> Normal p)"

definition off :: "string \<Rightarrow> callback \<Rightarrow> page \<Rightarrow> page completion" where
  "off event cb p =
     (case listeners_get event p of
        Own cbs \<Rightarrow> Normal (p\<lparr>listeners := (listeners p)(event \<mapsto> filter (\<lambda>c. c \<noteq> cb) cbs)\<rparr>)
      | Inherited \<Rightarrow> Throw ''TypeError'' p
      | Missing \<Rightarrow> Normal p)"

subsection \<open>Dispatch\<close>

text \<open>
  What a callback does when called. The application's five are the functions above; a
  foreign callback is any function of the payload and the page, given by \<open>ext\<close>.
\<close>

definition behaviour ::
  "(nat \<Rightarrow> json \<Rightarrow> page \<Rightarrow> page completion) \<Rightarrow> callback \<Rightarrow> json \<Rightarrow> page \<Rightarrow> page completion"
where
  "behaviour ext cb data p =
     (case cb of
        AlertsNewIncident \<Rightarrow> alerts_on_new_incident data p
      | AlertsAlertUpdate \<Rightarrow> alerts_on_alert_update data p
      | AppHeatmapUpdate \<Rightarrow> app_on_heatmap_update data p
      | AppStatsUpdate \<Rightarrow> app_on_stats_update data p
      | AppNewIncident \<Rightarrow> app_on_new_incident data p
      | Foreign n \<Rightarrow> ext n data p)"

text \<open>
  The socket module's own steps run on the page together with a record of what the module
  itself has done: \<open>Called cb data err\<close>, the dispatcher called \<open>cb\<close> with \<open>data\<close> (and
  \<open>err\<close> is the error it caught from that call and wrote to the console, if the callback
  threw); \<open>Emitted i msg\<close>, a handler of the module emitted \<open>msg\<close> on socket \<open>i\<close>. No
  callback can reach that record.
\<close>

datatype action = Called callback json "string option" | Emitted nat string

type_synonym world = "page \<times> action list"

text \<open>
  \<^verbatim>\<open>Array.prototype.forEach\<close>: the function is applied to each element in turn, and an
  exception it lets out ends the walk.
\<close>

fun forEach :: "('a \<Rightarrow> 's \<Rightarrow> 's completion) \<Rightarrow> 'a list \<Rightarrow> 's \<Rightarrow> 's completion" where
  "forEach f [] s = Normal s"
| "forEach f (x # xs) s =
     (case f x s of Normal s' \<Rightarrow> forEach f xs s' | Throw e s' \<Rightarrow> Throw e s')"

text \<open>
  The arrow function of \<^verbatim>\<open>_notify\<close>: \<^verbatim>\<open>try { cb(data); } catch (e) { console.error(..) }\<close>.
\<close>

definition notify_one ::
  "(nat \<Rightarrow> json \<Rightarrow> page \<Rightarrow> page completion) \<Rightarrow> string \<Rightarrow> json \<Rightarrow> callback \<Rightarrow> world
     \<Rightarrow> world completion"
where
  "notify_one ext event data cb w =
     (case behaviour ext cb data (fst w) of
        Normal q \<Rightarrow> Normal (q, snd w @ [Called cb data None])
      | Throw e q \<Rightarrow>
          Normal (console_line (''[WS] Listener error for '' @ event @ '': '' @ e) q,
                  snd w @ [Called cb data (Some e)]))"

text \<open>\<^verbatim>\<open>_notify\<close>: when \<^verbatim>\<open>listeners[event]\<close> is truthy, \<^verbatim>\<open>forEach\<close> is called on it.\<close>

definition notify ::
  "(nat \<Rightarrow> json \<Rightarrow> page \<Rightarrow> page completion) \<Rightarrow> string \<Rightarrow> json \<Rightarrow> world \<Rightarrow> world completion"
where
  "notify ext event data w =
     (case listeners_get event (fst w) of
        Own cbs \<Rightarrow> forEach (notify_one ext event data) cbs w
      | Inherited \<Rightarrow> Throw ''TypeError'' w
      | Missing \<Rightarrow> Normal w)"

subsection \<open>Connection\<close>

text \<open>
  \<^verbatim>\<open>_updateConnectionUI\<close>: the indicator is created when the document has none, then set to
  \<^verbatim>\<open>Live\<close> or \<^verbatim>\<open>Reconnecting...\<close>.
\<close>

definition updateConnectionUI :: "bool \<Rightarrow> page \<Rightarrow> page" where
  "updateConnectionUI is_connected p =
     p\<lparr>document := (document p)(ConnectionStatus \<mapsto> Indicator is_connected)\<rparr>"








text \<open>
  \<^verbatim>\<open>connect\<close>: \<^verbatim>\<open>io(..)\<close> is called on every call and gives a socket, which is assigned to
  \<^verbatim>\<open>socket\<close> and gets the seven handlers. Nothing is asked of, or done to, the socket
  \<^verbatim>\<open>socket\<close> held before.
\<close>

definition io :: transport where
  "io = \<lparr>reconnection = True, reconnectionDelay = 2000, reconnectionAttempts = 20,
          registered = [], outbox = []\<rparr>"

definition connect :: "page \<Rightarrow> page" where
  "connect p =
     p\<lparr>socket := Some (length (transports p)),
       transports := transports p @
         [io\<lparr>registered := [''connect'', ''disconnect'', ''connection_ack'', ''new_incident'',
                              ''alert_update'', ''heatmap_update'', ''stats_update'']\<rparr>]\<rparr>"


section \<open>What is observed\<close>

text \<open>The calls and the emissions in a record of actions, in order.\<close>

fun dispatched :: "action list \<Rightarrow> (callback \<times> json) list" where
  "dispatched [] = []"
| "dispatched (Called cb data err # as) = (cb, data) # dispatched as"
| "dispatched (Emitted i msg # as) = dispatched as"

fun emitted :: "action list \<Rightarrow> (nat \<times> string) list" where
  "emitted [] = []"
| "emitted (Called cb data err # as) = emitted as"
| "emitted (Emitted i msg # as) = (i, msg) # emitted as"

text \<open>
  The views of the data domains: the alert list, the two map layers, and everything the
  document shows apart from the connection indicator.
\<close>

definition views ::
  "page \<Rightarrow> alert list \<times> (real \<times> real \<times> real) list option \<times> incident list option
     \<times> (elem \<rightharpoonup> content)"
where
  "views p = (alerts p, heatLayer p, markerLayer p, (document p)(ConnectionStatus := None))"

section \<open>The dispatch the specification asks for\<close>

text \<open>
  The specification's dispatch, written from its words and not from \<^verbatim>\<open>_notify\<close>: every
  registered handler is invoked, in registration order, on the page as the handler before
  it left it; a handler that throws is caught and logged by itself, and the handlers after
  it run all the same. \<open>spec_isolated_call\<close> is one such invocation, \<open>spec_dispatch\<close> the
  whole of them.
\<close>

definition spec_isolated_call ::
  "(nat \<Rightarrow> json \<Rightarrow> page \<Rightarrow> page completion) \<Rightarrow> string \<Rightarrow> json \<Rightarrow> world \<Rightarrow> callback \<Rightarrow> world"
where
  "spec_isolated_call ext event data w cb =
     (case behaviour ext cb data (fst w) of
        Normal q \<Rightarrow> (q, snd w @ [Called cb data None])
      | Throw e q \<Rightarrow>
          (q\<lparr>console := console q @ [''[WS] Listener error for '' @ event @ '': '' @ e]\<rparr>,
           snd w @ [Called cb data (Some e)]))"

definition spec_dispatch ::
  "(nat \<Rightarrow> json \<Rightarrow> page \<Rightarrow> page completion) \<Rightarrow> string \<Rightarrow> json \<Rightarrow> callback list \<Rightarrow> world \<Rightarrow> world"
where
  "spec_dispatch ext event data cbs w = foldl (spec_isolated_call ext event data) w cbs"

section \<open>The dashboard as the application starts it\<close>

text \<open>
  A document with every element the code looks up, before any script has run; and
  \<^verbatim>\<open>initDashboard\<close> as far as the modules here are concerned: the map layers are created,
  one socket is opened, the alert panel starts its pull and registers its two callbacks,
  and the controller registers its three. The pulls the controller awaits in between
  (heat map, incidents, statistics) register nothing; their responses are steps of their
  own, taken by the functions above.
\<close>

definition static_document :: "elem \<rightharpoonup> content" where
  "static_document =
     [AlertsContainer \<mapsto> Static, AlertCountBadge \<mapsto> Static, DashActiveAlerts \<mapsto> Static,
      DashCamerasOnline \<mapsto> Static, DashIncidentsToday \<mapsto> Static, MockupAlerts \<mapsto> Static]"

definition initial_page :: page where
  "initial_page =
     \<lparr>alerts = [], heatLayer = None, markerLayer = None, document = static_document,
      console = [], requests = [], listeners = initial_listeners, socket = None,
      transports = []\<rparr>"

definition registrations :: "(string \<times> callback) list" where
  "registrations =
     [(''new_incident'', AlertsNewIncident), (''alert_update'', AlertsAlertUpdate),
      (''heatmap_update'', AppHeatmapUpdate), (''stats_update'', AppStatsUpdate),
      (''new_incident'', AppNewIncident)]"

definition initDashboard :: "page \<Rightarrow> page" where
  "initDashboard p =
     foldl (\<lambda>q r. state_of (on (fst r) (snd r) q)) (fetchAlerts (connect (map_init p)))
       registrations"

section \<open>Sample data\<close>

text \<open>
  Alerts, points, push frames and pull responses to run the functions on: an alert with a
  given title, a \<^verbatim>\<open>new_incident\<close> frame with and without an alert, snapshots of the
  three domains.
\<close>

definition sample_alert :: "string \<Rightarrow> alert" where
  "sample_alert t =
     \<lparr>alert_type = ''critical'', title = t, message = ''Wrong-way driver'', latitude = 34,
      longitude = -118, notified_chp = True, created_at = ''2024-01-01T00:00:00''\<rparr>"

definition new_incident_with :: "alert \<Rightarrow> json" where
  "new_incident_with a = Obj (no_fields\<lparr>d_alert := Some a\<rparr>)"

definition alerts_snapshot :: "alert list \<Rightarrow> response" where
  "alerts_snapshot xs = Json (Obj (no_fields\<lparr>d_alerts := Some xs\<rparr>))"

definition sample_incident :: incident where
  "sample_incident = \<lparr>incident_type = ''swerving'', severity = ''warning'', camera_name = ''I-5''\<rparr>"

definition new_incident_without_alert :: json where
  "new_incident_without_alert = Obj (no_fields\<lparr>d_incident := Some sample_incident\<rparr>)"

definition heatmap_snapshot :: "point list \<Rightarrow> response" where
  "heatmap_snapshot pts = Json (Obj (no_fields\<lparr>d_heatmap := Some pts\<rparr>))"

definition stats_record :: "int \<Rightarrow> int \<Rightarrow> int \<Rightarrow> fields" where
  "stats_record a c i =
     no_fields\<lparr>d_active_alerts := Some a, d_cameras_active := Some c, d_incidents_today := Some i\<rparr>"

definition sample_point :: "real \<Rightarrow> point" where
  "sample_point x = \<lparr>lat = 34, lng = -118, intensity = Some x\<rparr>"

text \<open>
  Foreign callbacks for the examples: number 0 throws at once, every other one writes a
  line to the console.
\<close>

definition sample_ext :: "nat \<Rightarrow> json \<Rightarrow> page \<Rightarrow> page completion" where
  "sample_ext n data p = (if n = 0 then Throw ''boom'' p else Normal (console_line ''seen'' p))"

text \<open>
  The dashboard with a foreign callback registered for \<^verbatim>\<open>new_incident\<close> ahead of the
  application's own.
\<close>

definition crowded_dashboard :: page where
  "crowded_dashboard = initDashboard (state_of (on ''new_incident'' (Foreign 0) initial_page))"


text \<open>A \<^verbatim>\<open>new_incident\<close> frame with both an incident and an alert.\<close>

definition new_incident_full :: "alert \<Rightarrow> json" where
  "new_incident_full a = Obj (no_fields\<lparr>d_incident := Some sample_incident, d_alert := Some a\<rparr>)"

section \<open>Facts about the alert panel\<close>

lemma alerts_set_content [simp]: "alerts (set_content e c p) = alerts p"
  by (simp add: set_content_def split: option.split)

lemma alerts_render [simp]: "alerts (render p) = alerts p"
  by (simp add: render_def split: option.split)

lemma alerts_prependAlert: "alerts (prependAlert a p) = take 30 (a # alerts p)"
  by (simp add: prependAlert_def Let_def)

lemma take_append_take: "take n (xs @ take n ys) = take n (xs @ ys)"
  by simp

lemma alerts_push_step:
  "alerts (state_of (alerts_on_new_incident d p)) =
     (case d of Undefined \<Rightarrow> alerts p
      | Obj f \<Rightarrow> (case d_alert f of None \<Rightarrow> alerts p | Some a \<Rightarrow> take 30 (a # alerts p)))"
  by (simp add: alerts_on_new_incident_def alerts_prependAlert split: json.split option.split)

lemma alerts_push_closed:
  "alerts (push_new_incidents ds p) =
     (if carried ds = [] then alerts p else take 30 (rev (carried ds) @ alerts p))"
proof (induction ds arbitrary: p)
  case Nil
  then show ?case by (simp add: push_new_incidents_def)
next
  case (Cons d ds)
  have unfold: "push_new_incidents (d # ds) p =
      push_new_incidents ds (state_of (alerts_on_new_incident d p))"
    by (simp add: push_new_incidents_def)
  show ?case
  proof (cases d)
    case Undefined
    then show ?thesis using Cons.IH unfold by (simp add: alerts_push_step)
  next
    case (Obj f)
    show ?thesis
    proof (cases "d_alert f")
      case None
      then show ?thesis using Cons.IH unfold Obj by (simp add: alerts_push_step)
    next
      case (Some a)
      let ?q = "state_of (alerts_on_new_incident d p)"
      have q: "alerts ?q = take 30 (a # alerts p)"
        using Some Obj by (simp only: alerts_push_step json.case option.case)
      have c: "carried (d # ds) = a # carried ds"
        using Some Obj by simp
      show ?thesis
      proof (cases "carried ds = []")
        case True
        then show ?thesis using Cons.IH [of ?q] unfold q c by simp
      next
        case False
        have "alerts (push_new_incidents (d # ds) p) = take 30 (rev (carried ds) @ alerts ?q)"
          using Cons.IH [of ?q] unfold False by simp
        also have "\<dots> = take 30 (rev (carried ds) @ (a # alerts p))"
          unfolding q by (rule take_append_take)
        finally show ?thesis using c by simp
      qed
    qed
  qed
qed

lemma carried_with: "carried (map (\<lambda>i. new_incident_with (e i)) ns) = map e ns"
  by (induction ns) (simp_all add: new_incident_with_def)

lemma alerts_settle_snapshot:
  "alerts (state_of (fetchAlerts_settle (alerts_snapshot xs) p)) = xs"
  by (simp add: fetchAlerts_settle_def fetchAlerts_try_def alerts_snapshot_def)

text \<open>
  C3. A pushed alert is put in front of the view and the result is cut to its first 30
  entries. After a pull that returned \<open>[a1]\<close>, a push of \<open>a2\<close> leaves \<open>[a2, a1]\<close>. After
  31 pushes onto an empty view, carrying alerts number 1 to 31, the view holds 30 alerts:
  numbers 31 down to 2, so the first one pushed is gone.
\<close>

theorem prepend_and_trim:
  "alerts (prependAlert a p) = take 30 (a # alerts p)
   \<and> alerts (state_of (alerts_on_new_incident (new_incident_with a2)
        (state_of (fetchAlerts_settle (alerts_snapshot [a1]) p)))) = [a2, a1]
   \<and> alerts (push_new_incidents (map (\<lambda>i. new_incident_with (e i)) [1..<32])
        (p\<lparr>alerts := []\<rparr>)) = map e (rev [2..<32])
   \<and> length (alerts (push_new_incidents (map (\<lambda>i. new_incident_with (e i)) [1..<32])
        (p\<lparr>alerts := []\<rparr>))) = 30"
proof -
  have one: "alerts (prependAlert a p) = take 30 (a # alerts p)"
    by (rule alerts_prependAlert)
  have two: "alerts (state_of (alerts_on_new_incident (new_incident_with a2)
        (state_of (fetchAlerts_settle (alerts_snapshot [a1]) p)))) = [a2, a1]"
    by (simp add: alerts_push_step new_incident_with_def alerts_settle_snapshot)
  have a: "take 30 (rev [1..<32::nat]) = rev (drop (length [1..<32::nat] - 30) [1..<32])"
    by (rule take_rev)
  have b: "length [1..<32::nat] - 30 = 1"
    by simp
  have c: "drop 1 [1..<32::nat] = [1 + 1..<32]"
    by (rule drop_upt)
  have d: "(1::nat) + 1 = 2"
    by simp
  have "take 30 (rev [1..<32::nat]) = rev [2..<32]"
    unfolding a b c d ..
  then have "take 30 (rev (map e [1..<32])) = map e (rev [2..<32])"
    by (simp only: rev_map take_map)
  moreover have "map e [1..<32] \<noteq> []"
    by simp
  moreover have "alerts (p\<lparr>alerts := []\<rparr>) = []"
    by simp
  ultimately have three:
    "alerts (push_new_incidents (map (\<lambda>i. new_incident_with (e i)) [1..<32])
        (p\<lparr>alerts := []\<rparr>)) = map e (rev [2..<32])"
    by (simp only: alerts_push_closed carried_with if_False append_Nil2)
  have four: "length (alerts (push_new_incidents (map (\<lambda>i. new_incident_with (e i)) [1..<32])
        (p\<lparr>alerts := []\<rparr>))) = 30"
    unfolding three by simp
  from one two three four show ?thesis by blast
qed

lemma push_new_incidents_snoc:
  "push_new_incidents (ds @ [d]) p = state_of (alerts_on_new_incident d (push_new_incidents ds p))"
  by (simp add: push_new_incidents_def)

lemma alerts_initial_page: "alerts initial_page = []"
  by (simp add: initial_page_def)

text \<open>
  C2, as the code has it. From a view of at most 30 alerts, every run of push
  \<^verbatim>\<open>new_incident\<close> events leaves, after each of its events, a view of at most 30 alerts:
  the alerts pushed so far, newest first, in front of the alerts that were there, cut at
  30. From any view, an event that carries an alert leaves that alert in front of the
  alerts already present, cut at 30. A pull is not cut, so a longer view it has left stays
  until the next event that carries an alert.
\<close>

theorem pushes_keep_cap:
  "(length (alerts p) \<le> 30 \<longrightarrow>
      length (alerts (push_new_incidents (take n ds) p)) \<le> 30
      \<and> alerts (push_new_incidents (take n ds) p) = take 30 (rev (carried (take n ds)) @ alerts p))
   \<and> (d_alert d = Some a \<longrightarrow>
      alerts (push_new_incidents (ds @ [Obj d]) p) = take 30 (a # alerts (push_new_incidents ds p))
      \<and> length (alerts (push_new_incidents (ds @ [Obj d]) p)) \<le> 30)"
proof (intro conjI impI)
  assume short: "length (alerts p) \<le> 30"
  show closed: "alerts (push_new_incidents (take n ds) p)
      = take 30 (rev (carried (take n ds)) @ alerts p)"
    using short by (simp add: alerts_push_closed)
  show "length (alerts (push_new_incidents (take n ds) p)) \<le> 30"
    unfolding closed by simp
next
  assume carries: "d_alert d = Some a"
  show front: "alerts (push_new_incidents (ds @ [Obj d]) p)
      = take 30 (a # alerts (push_new_incidents ds p))"
    using carries by (simp only: push_new_incidents_snoc alerts_push_step json.case option.case)
  show "length (alerts (push_new_incidents (ds @ [Obj d]) p)) \<le> 30"
    unfolding front by simp
qed

theorem pushes_keep_cap_witness:
  "length (alerts initial_page) \<le> 30
   \<and> alerts (push_new_incidents
        (take 2 [new_incident_with (sample_alert ''a1''), new_incident_without_alert,
                 new_incident_with (sample_alert ''a2'')]) initial_page)
      = [sample_alert ''a1'']
   \<and> d_alert (no_fields\<lparr>d_alert := Some (sample_alert ''a3'')\<rparr>) = Some (sample_alert ''a3'')
   \<and> alerts (push_new_incidents
        ([new_incident_with (sample_alert ''a1''), new_incident_without_alert,
          new_incident_with (sample_alert ''a2'')]
         @ [Obj (no_fields\<lparr>d_alert := Some (sample_alert ''a3'')\<rparr>)]) initial_page)
      = [sample_alert ''a3'', sample_alert ''a2'', sample_alert ''a1'']"
  using pushes_keep_cap [of initial_page 2
      "[new_incident_with (sample_alert ''a1''), new_incident_without_alert,
        new_incident_with (sample_alert ''a2'')]"
      "no_fields\<lparr>d_alert := Some (sample_alert ''a3'')\<rparr>" "sample_alert ''a3''"]
  by (simp add: alerts_initial_page alerts_push_closed new_incident_with_def
      new_incident_without_alert_def no_fields_def)

text \<open>
  A pull that returns 31 alerts, then a push \<^verbatim>\<open>new_incident\<close> without an alert: the view
  holds 31 alerts.
\<close>

theorem uncapped_snapshot_counterexample:
  "\<not> length (alerts (push_new_incidents [new_incident_without_alert]
        (state_of (fetchAlerts_settle (alerts_snapshot (replicate 31 (sample_alert ''a'')))
           initial_page)))) \<le> 30"
  by (simp add: alerts_push_closed new_incident_without_alert_def no_fields_def
      alerts_settle_snapshot)

section \<open>Facts about pulls\<close>

lemma fetchAlerts_settle_failed:
  assumes "r = NetworkError e \<or> r = DecodeError e"
  shows "fetchAlerts_settle r p
    = Normal (renderError (console_line (''[Alerts] Fetch error: '' @ e) p))"
  using assms by (auto simp: fetchAlerts_settle_def fetchAlerts_try_def)

lemma fetchAlerts_settle_ok:
  "alerts (state_of (fetchAlerts_settle (Json (Obj d)) p))
     = (case d_alerts d of None \<Rightarrow> [] | Some xs \<Rightarrow> xs)"
  by (simp add: fetchAlerts_settle_def fetchAlerts_try_def)

text \<open>
  C8. When the alerts pull fails in the network or in decoding, the promise of
  \<^verbatim>\<open>fetchAlerts\<close> is still fulfilled, the alert list is the one held before, and the page
  differs from the one before in two places only: the console has the error line, and the
  alerts container, if the document has one, shows the load-failed message.
\<close>

theorem pull_failure_keeps_alerts:
  assumes "r = NetworkError e \<or> r = DecodeError e"
  shows "returns (fetchAlerts_settle r p)
    \<and> alerts (state_of (fetchAlerts_settle r p)) = alerts p
    \<and> state_of (fetchAlerts_settle r p)
        = p\<lparr>console := console p @ [''[Alerts] Fetch error: '' @ e],
            document := (case document p AlertsContainer of
                           None \<Rightarrow> document p
                         | Some el \<Rightarrow> (document p)(AlertsContainer \<mapsto> LoadFailed))\<rparr>"
proof -
  have settled: "fetchAlerts_settle r p
      = Normal (renderError (console_line (''[Alerts] Fetch error: '' @ e) p))"
    using assms by (rule fetchAlerts_settle_failed)
  have kept: "alerts (renderError (console_line (''[Alerts] Fetch error: '' @ e) p)) = alerts p"
    by (simp add: renderError_def console_line_def)
  have whole: "renderError (console_line (''[Alerts] Fetch error: '' @ e) p)
      = p\<lparr>console := console p @ [''[Alerts] Fetch error: '' @ e],
          document := (case document p AlertsContainer of
                         None \<Rightarrow> document p
                       | Some el \<Rightarrow> (document p)(AlertsContainer \<mapsto> LoadFailed))\<rparr>"
    by (simp add: renderError_def console_line_def set_content_def split: option.split)
  show ?thesis
    using kept whole by (simp only: settled returns.simps state_of.simps simp_thms)
qed

theorem pull_failure_keeps_alerts_witness:
  "returns (fetchAlerts_settle (NetworkError ''Failed to fetch'')
      (state_of (fetchAlerts_settle (alerts_snapshot [sample_alert ''a1'']) initial_page)))
   \<and> alerts (state_of (fetchAlerts_settle (NetworkError ''Failed to fetch'')
      (state_of (fetchAlerts_settle (alerts_snapshot [sample_alert ''a1'']) initial_page))))
     = [sample_alert ''a1'']
   \<and> document (state_of (fetchAlerts_settle (NetworkError ''Failed to fetch'')
      (state_of (fetchAlerts_settle (alerts_snapshot [sample_alert ''a1'']) initial_page))))
      AlertsContainer = Some LoadFailed"
  using pull_failure_keeps_alerts [of "NetworkError ''Failed to fetch''" "''Failed to fetch''"
      "state_of (fetchAlerts_settle (alerts_snapshot [sample_alert ''a1'']) initial_page)"]
  by (simp add: alerts_settle_snapshot)
    (simp add: fetchAlerts_settle_def fetchAlerts_try_def alerts_snapshot_def render_def
      set_content_def initial_page_def static_document_def)

lemma heatLayer_updateHeatmap:
  "heatLayer (updateHeatmap (Some pts) p)
     = (case heatLayer p of
          None \<Rightarrow> None
        | Some layer \<Rightarrow>
            Some (map (\<lambda>pt. (lat pt, lng pt, intensity_or_default (intensity pt))) pts))"
  by (simp add: updateHeatmap_def split: option.split)

lemma heatLayer_settle_ok:
  "heatLayer (state_of (loadHeatmapData_settle (Json (Obj d)) p))
     = (case heatLayer p of
          None \<Rightarrow> None
        | Some layer \<Rightarrow>
            Some (map (\<lambda>pt. (lat pt, lng pt, intensity_or_default (intensity pt)))
              (case d_heatmap d of None \<Rightarrow> [] | Some h \<Rightarrow> h)))"
  by (simp add: loadHeatmapData_settle_def loadHeatmapData_try_def heatLayer_updateHeatmap)

lemma heatLayer_settle_present:
  "(heatLayer (state_of (loadHeatmapData_settle r p)) = None) = (heatLayer p = None)"
  by (simp add: loadHeatmapData_settle_def loadHeatmapData_try_def heatLayer_updateHeatmap
      console_line_def split: response.split json.split option.split)

lemma heatLayer_loadHeatmapData [simp]: "heatLayer (loadHeatmapData h p) = heatLayer p"
  by (simp add: loadHeatmapData_def fetch_def)

lemma document_set_content:
  "document (set_content e c p) e'
     = (if e' = e \<and> document p e \<noteq> None then Some c else document p e')"
  by (simp add: set_content_def split: option.split)

lemma document_write_stat:
  "document (write_stat p u) e'
     = (case snd u of
          None \<Rightarrow> document p e'
        | Some v \<Rightarrow> (if e' = fst u \<and> document p e' \<noteq> None then Some (Num v) else document p e'))"
  by (auto simp: write_stat_def document_set_content split: option.split)

lemma present_write_stats:
  "(document (foldl write_stat p us) e = None) = (document p e = None)"
  by (induction us arbitrary: p) (auto simp: document_write_stat split: option.split)

lemma document_loadStats [simp]: "document (loadStats p) = document p"
  by (simp add: loadStats_def fetch_def)

lemma present_loadStats_settle:
  "(document (state_of (loadStats_settle r p)) e = None) = (document p e = None)"
  by (simp add: loadStats_settle_def loadStats_try_def updateStatDisplays_def console_line_def
      present_write_stats split: response.split json.split)

lemma document_loadStats_settle_ok:
  assumes "(e, Some v) \<in> set (stat_updates d)"
  shows "document (state_of (loadStats_settle (Json (Obj d)) p)) e
    = (case document p e of None \<Rightarrow> None | Some old \<Rightarrow> Some (Num v))"
  using assms
  by (auto simp: loadStats_settle_def loadStats_try_def updateStatDisplays_def stat_updates_def
      document_write_stat split: option.split)

text \<open>
  C1, as the code has it. No pull carries a sequence number and no response is discarded:
  a response that arrives with a body overwrites the view of its domain, whatever was
  issued or has arrived since. With P1 issued before P2 and P2's response arriving first,
  the view after both arrivals is P1's result: the alert list is P1's \<^verbatim>\<open>alerts\<close> array,
  the heat layer (once the map exists) holds P1's points, and every counter P1's record
  defines is what its element shows.
\<close>

theorem last_arrival_wins:
  "alerts (state_of (fetchAlerts_settle (Json (Obj a1))
       (state_of (fetchAlerts_settle ra2 (fetchAlerts (fetchAlerts p))))))
     = (case d_alerts a1 of None \<Rightarrow> [] | Some xs \<Rightarrow> xs)
   \<and> heatLayer (state_of (loadHeatmapData_settle (Json (Obj h1))
       (state_of (loadHeatmapData_settle rh2 (loadHeatmapData w2 (loadHeatmapData w1 p))))))
     = (case heatLayer p of
          None \<Rightarrow> None
        | Some layer \<Rightarrow>
            Some (map (\<lambda>pt. (lat pt, lng pt, intensity_or_default (intensity pt)))
              (case d_heatmap h1 of None \<Rightarrow> [] | Some h \<Rightarrow> h)))
   \<and> ((e, Some v) \<in> set (stat_updates s1) \<longrightarrow>
        document (state_of (loadStats_settle (Json (Obj s1))
          (state_of (loadStats_settle rs2 (loadStats (loadStats p)))))) e
        = (case document p e of None \<Rightarrow> None | Some old \<Rightarrow> Some (Num v)))"
proof (intro conjI impI)
  show "alerts (state_of (fetchAlerts_settle (Json (Obj a1))
       (state_of (fetchAlerts_settle ra2 (fetchAlerts (fetchAlerts p))))))
     = (case d_alerts a1 of None \<Rightarrow> [] | Some xs \<Rightarrow> xs)"
    by (rule fetchAlerts_settle_ok)
next
  let ?q = "state_of (loadHeatmapData_settle rh2 (loadHeatmapData w2 (loadHeatmapData w1 p)))"
  have "(heatLayer ?q = None) = (heatLayer p = None)"
    by (simp add: heatLayer_settle_present)
  then show "heatLayer (state_of (loadHeatmapData_settle (Json (Obj h1)) ?q))
     = (case heatLayer p of
          None \<Rightarrow> None
        | Some layer \<Rightarrow>
            Some (map (\<lambda>pt. (lat pt, lng pt, intensity_or_default (intensity pt)))
              (case d_heatmap h1 of None \<Rightarrow> [] | Some h \<Rightarrow> h)))"
    by (cases "heatLayer p"; cases "heatLayer ?q") (simp_all add: heatLayer_settle_ok)
next
  let ?q = "state_of (loadStats_settle rs2 (loadStats (loadStats p)))"
  assume defined: "(e, Some v) \<in> set (stat_updates s1)"
  have "(document ?q e = None) = (document p e = None)"
    by (simp add: present_loadStats_settle)
  then show "document (state_of (loadStats_settle (Json (Obj s1)) ?q)) e
      = (case document p e of None \<Rightarrow> None | Some old \<Rightarrow> Some (Num v))"
    by (cases "document p e"; cases "document ?q e")
      (simp_all add: document_loadStats_settle_ok [OF defined])
qed

theorem last_arrival_wins_witness:
  "(DashCamerasOnline, Some 7) \<in> set (stat_updates (stats_record 3 7 5))
   \<and> document (state_of (loadStats_settle (Json (Obj (stats_record 3 7 5)))
        (state_of (loadStats_settle (Json (Obj (stats_record 4 8 6)))
          (loadStats (loadStats initial_page)))))) DashCamerasOnline
      = Some (Num 7)"
  using last_arrival_wins [of no_fields "Json Undefined" initial_page no_fields "Json Undefined"
      1 1 DashCamerasOnline 7 "stats_record 3 7 5" "Json (Obj (stats_record 4 8 6))"]
  by (simp add: stat_updates_def stats_record_def no_fields_def initial_page_def
      static_document_def)

text \<open>
  P1 and P2 are issued in that order; P2's response, \<open>[a2]\<close>, arrives first and P1's,
  \<open>[a1]\<close>, after it. The view is then \<open>[a1]\<close>.
\<close>

theorem stale_pull_counterexample:
  "alerts (state_of (fetchAlerts_settle (alerts_snapshot [sample_alert ''a1''])
       (state_of (fetchAlerts_settle (alerts_snapshot [sample_alert ''a2''])
          (fetchAlerts (fetchAlerts initial_page))))))
     \<noteq> [sample_alert ''a2'']"
  by (simp add: alerts_settle_snapshot sample_alert_def)

section \<open>Facts about dispatch\<close>

lemma dispatched_append [simp]: "dispatched (xs @ ys) = dispatched xs @ dispatched ys"
  by (induction xs rule: dispatched.induct) simp_all

lemma emitted_append [simp]: "emitted (xs @ ys) = emitted xs @ emitted ys"
  by (induction xs rule: emitted.induct) simp_all

lemma notify_one_normal:
  "notify_one ext event data cb w = Normal (state_of (notify_one ext event data cb w))"
  by (simp add: notify_one_def split: completion.split)

lemma forEach_total:
  assumes "\<And>x s. f x s = Normal (state_of (f x s))"
  shows "forEach f xs s = Normal (foldl (\<lambda>s x. state_of (f x s)) s xs)"
proof (induction xs arbitrary: s)
  case Nil
  show ?case by simp
next
  case (Cons x xs)
  have "f x s = Normal (state_of (f x s))" by (rule assms)
  then have "forEach f (x # xs) s = forEach f xs (state_of (f x s))"
    by (metis completion.simps(5) forEach.simps(2))
  then show ?case using Cons.IH by simp
qed

lemma notify_own:
  assumes "listeners (fst w) event = Some cbs"
  shows "notify ext event data w
    = Normal (foldl (\<lambda>w cb. state_of (notify_one ext event data cb w)) w cbs)"
  using assms forEach_total [of "notify_one ext event data", OF notify_one_normal]
  by (simp add: notify_def listeners_get_def)

lemma trace_notify_one:
  "snd (state_of (notify_one ext event data cb w))
     = snd w @ [Called cb data
         (case behaviour ext cb data (fst w) of Normal q \<Rightarrow> None | Throw e q \<Rightarrow> Some e)]"
  by (simp add: notify_one_def split: completion.split)

lemma dispatched_walk:
  "dispatched (snd (foldl (\<lambda>w cb. state_of (notify_one ext event data cb w)) w cbs))
     = dispatched (snd w) @ map (\<lambda>cb. (cb, data)) cbs"
  by (induction cbs arbitrary: w) (simp_all add: trace_notify_one)


lemma listeners_notify_one:
  assumes "\<And>q. listeners (state_of (behaviour ext cb data q)) = listeners q"
  shows "listeners (fst (state_of (notify_one ext event data cb w))) = listeners (fst w)"
proof (cases "behaviour ext cb data (fst w)")
  case (Normal q)
  then show ?thesis using assms [of "fst w"] by (simp add: notify_one_def)
next
  case (Throw e q)
  then show ?thesis using assms [of "fst w"] by (simp add: notify_one_def console_line_def)
qed

lemma listeners_walk:
  assumes "\<And>cb q. cb \<in> set cbs \<Longrightarrow> listeners (state_of (behaviour ext cb data q)) = listeners q"
  shows "listeners (fst (foldl (\<lambda>w cb. state_of (notify_one ext event data cb w)) w cbs))
    = listeners (fst w)"
  using assms
proof (induction cbs arbitrary: w)
  case Nil
  show ?case by simp
next
  case (Cons cb cbs)
  have "listeners (fst (state_of (notify_one ext event data cb w))) = listeners (fst w)"
    by (rule listeners_notify_one) (simp add: Cons.prems)
  then show ?case using Cons.IH [of "state_of (notify_one ext event data cb w)"] Cons.prems
    by simp
qed

lemma spec_dispatch_split:
  "spec_dispatch ext event data (pre @ cb # post) w
     = spec_dispatch ext event data post
         (spec_isolated_call ext event data (spec_dispatch ext event data pre w) cb)"
  by (simp add: spec_dispatch_def)

text \<open>
  C4. A dispatch for an event whose list of callbacks is \<open>cbs\<close> returns, whatever the
  callbacks do, and leaves exactly the state the specification's dispatch leaves: every
  callback of \<open>cbs\<close> has run once, in registration order, on the page the one before it
  left. When a callback throws, the error is caught on the spot and written to the
  console, and the callbacks after it run from the page it left, with that line added;
  when it returns, they run from the page it returned. The next dispatch, from the state
  this one leaves, again returns and runs every callback registered then; and when the
  callbacks themselves leave the registry alone, the dispatch leaves it as it was, so
  those are the same callbacks, the ones that threw included.
\<close>

theorem dispatch_isolates_handlers:
  assumes "listeners (fst w) event = Some cbs"
  shows "notify ext event data w = Normal (spec_dispatch ext event data cbs w)
    \<and> returns (notify ext event data w)
    \<and> dispatched (snd (state_of (notify ext event data w)))
        = dispatched (snd w) @ map (\<lambda>cb. (cb, data)) cbs
    \<and> (cbs = pre @ cb # post
         \<and> behaviour ext cb data (fst (spec_dispatch ext event data pre w)) = Throw e q \<longrightarrow>
         notify ext event data w
         = Normal (spec_dispatch ext event data post
             (q\<lparr>console := console q @ [''[WS] Listener error for '' @ event @ '': '' @ e]\<rparr>,
              snd (spec_dispatch ext event data pre w) @ [Called cb data (Some e)])))
    \<and> (cbs = pre @ cb # post
         \<and> behaviour ext cb data (fst (spec_dispatch ext event data pre w)) = Normal q \<longrightarrow>
         notify ext event data w
         = Normal (spec_dispatch ext event data post
             (q, snd (spec_dispatch ext event data pre w) @ [Called cb data None])))
    \<and> (behaviour ext cb data (fst w') = Throw e q \<longrightarrow>
         notify_one ext event data cb w'
         = Normal (console_line (''[WS] Listener error for '' @ event @ '': '' @ e) q,
                   snd w' @ [Called cb data (Some e)]))
    \<and> (listeners (fst (state_of (notify ext event data w))) event' = Some cbs' \<longrightarrow>
         notify ext event' data' (state_of (notify ext event data w))
         = Normal (spec_dispatch ext event' data' cbs' (spec_dispatch ext event data cbs w))
         \<and> returns (notify ext event' data' (state_of (notify ext event data w)))
         \<and> dispatched (snd (state_of (notify ext event' data' (state_of (notify ext event data w)))))
            = dispatched (snd w) @ map (\<lambda>cb. (cb, data)) cbs @ map (\<lambda>cb. (cb, data')) cbs')
    \<and> ((\<forall>cb\<in>set cbs. \<forall>q. listeners (state_of (behaviour ext cb data q)) = listeners q) \<longrightarrow>
         listeners (fst (state_of (notify ext event data w))) = listeners (fst w))"
proof -
  let ?w1 = "foldl (\<lambda>w cb. state_of (notify_one ext event data cb w)) w cbs"
  have first: "notify ext event data w = Normal ?w1"
    using assms by (rule notify_own)
  have call: "notify_one ext ev d c v = Normal (spec_isolated_call ext ev d v c)" for ev d c v
    by (simp add: notify_one_def spec_isolated_call_def console_line_def split: completion.split)
  then have calls: "(\<lambda>w cb. state_of (notify_one ext ev d cb w)) = spec_isolated_call ext ev d"
    for ev d
    by (intro ext) simp
  have spec: "notify ext event data w = Normal (spec_dispatch ext event data cbs w)"
    using first by (simp add: calls spec_dispatch_def)
  have a: "returns (notify ext event data w)"
    by (simp add: first)
  have walked: "dispatched (snd (state_of (notify ext event data w)))
      = dispatched (snd w) @ map (\<lambda>cb. (cb, data)) cbs"
    by (simp add: first dispatched_walk)
  have thrown: "notify ext event data w
         = Normal (spec_dispatch ext event data post
             (q\<lparr>console := console q @ [''[WS] Listener error for '' @ event @ '': '' @ e]\<rparr>,
              snd (spec_dispatch ext event data pre w) @ [Called cb data (Some e)]))"
    if "cbs = pre @ cb # post
      \<and> behaviour ext cb data (fst (spec_dispatch ext event data pre w)) = Throw e q"
    using that by (simp add: spec spec_dispatch_split) (simp add: spec_isolated_call_def)
  have returned: "notify ext event data w
         = Normal (spec_dispatch ext event data post
             (q, snd (spec_dispatch ext event data pre w) @ [Called cb data None]))"
    if "cbs = pre @ cb # post
      \<and> behaviour ext cb data (fst (spec_dispatch ext event data pre w)) = Normal q"
    using that by (simp add: spec spec_dispatch_split) (simp add: spec_isolated_call_def)
  have one: "notify_one ext event data cb w'
         = Normal (console_line (''[WS] Listener error for '' @ event @ '': '' @ e) q,
                   snd w' @ [Called cb data (Some e)])"
    if "behaviour ext cb data (fst w') = Throw e q"
    using that by (simp add: notify_one_def)
  have next_one: "notify ext event' data' (state_of (notify ext event data w))
         = Normal (spec_dispatch ext event' data' cbs' (spec_dispatch ext event data cbs w))
         \<and> returns (notify ext event' data' (state_of (notify ext event data w)))
         \<and> dispatched (snd (state_of (notify ext event' data' (state_of (notify ext event data w)))))
            = dispatched (snd w) @ map (\<lambda>cb. (cb, data)) cbs @ map (\<lambda>cb. (cb, data')) cbs'"
    if later: "listeners (fst (state_of (notify ext event data w))) event' = Some cbs'"
  proof -
    let ?w2 = "foldl (\<lambda>w cb. state_of (notify_one ext event' data' cb w))
        (state_of (notify ext event data w)) cbs'"
    have second: "notify ext event' data' (state_of (notify ext event data w)) = Normal ?w2"
      using later by (rule notify_own)
    have "notify ext event' data' (state_of (notify ext event data w))
        = Normal (spec_dispatch ext event' data' cbs' (state_of (notify ext event data w)))"
      using second by (simp add: calls spec_dispatch_def)
    then have "notify ext event' data' (state_of (notify ext event data w))
        = Normal (spec_dispatch ext event' data' cbs' (spec_dispatch ext event data cbs w))"
      by (simp add: spec)
    moreover have "returns (notify ext event' data' (state_of (notify ext event data w)))"
      by (simp add: second)
    moreover have "dispatched (snd (state_of (notify ext event' data'
          (state_of (notify ext event data w)))))
        = dispatched (snd w) @ map (\<lambda>cb. (cb, data)) cbs @ map (\<lambda>cb. (cb, data')) cbs'"
      by (simp add: second dispatched_walk walked)
    ultimately show ?thesis by blast
  qed
  have kept: "listeners (fst (state_of (notify ext event data w))) = listeners (fst w)"
    if "\<forall>cb\<in>set cbs. \<forall>q. listeners (state_of (behaviour ext cb data q)) = listeners q"
  proof -
    have "listeners (fst ?w1) = listeners (fst w)"
      using that by (intro listeners_walk) simp
    then show ?thesis by (simp add: first)
  qed
  from spec a walked thrown returned one next_one kept show ?thesis
    by blast
qed

lemma crowded_dashboard_eq:
  "crowded_dashboard =
     \<lparr>alerts = [], heatLayer = Some [], markerLayer = Some [], document = static_document,
      console = [], requests = [GetAlerts],
      listeners = initial_listeners
        (''new_incident'' \<mapsto> [Foreign 0, AlertsNewIncident, AppNewIncident],
         ''alert_update'' \<mapsto> [AlertsAlertUpdate],
         ''heatmap_update'' \<mapsto> [AppHeatmapUpdate],
         ''stats_update'' \<mapsto> [AppStatsUpdate]),
      socket = Some 0,
      transports = [io\<lparr>registered := [''connect'', ''disconnect'', ''connection_ack'',
        ''new_incident'', ''alert_update'', ''heatmap_update'', ''stats_update'']\<rparr>]\<rparr>"
  by (simp add: crowded_dashboard_def initDashboard_def registrations_def on_def
      listeners_get_def initial_page_def initial_listeners_def fetchAlerts_def fetch_def
      connect_def map_init_def fun_upd_twist)

lemma listeners_set_content [simp]: "listeners (set_content e c p) = listeners p"
  by (simp add: set_content_def split: option.split)

lemma listeners_render [simp]: "listeners (render p) = listeners p"
  by (simp add: render_def split: option.split)

lemma listeners_alerts_on_new_incident [simp]:
  "listeners (state_of (alerts_on_new_incident data p)) = listeners p"
  by (simp add: alerts_on_new_incident_def prependAlert_def Let_def
      split: json.split option.split)

lemma listeners_app_on_new_incident [simp]:
  "listeners (state_of (app_on_new_incident data p)) = listeners p"
  by (simp add: app_on_new_incident_def addIncidentMarkers_def split: json.split option.split)

theorem dispatch_isolates_handlers_witness:
  "listeners (fst (crowded_dashboard, [])) ''new_incident''
     = Some [Foreign 0, AlertsNewIncident, AppNewIncident]
   \<and> behaviour sample_ext (Foreign 0) (new_incident_full (sample_alert ''a1'')) crowded_dashboard
     = Throw ''boom'' crowded_dashboard
   \<and> returns (notify sample_ext ''new_incident'' (new_incident_full (sample_alert ''a1''))
       (crowded_dashboard, []))
   \<and> snd (state_of (notify sample_ext ''new_incident'' (new_incident_full (sample_alert ''a1''))
       (crowded_dashboard, [])))
     = [Called (Foreign 0) (new_incident_full (sample_alert ''a1'')) (Some ''boom''),
        Called AlertsNewIncident (new_incident_full (sample_alert ''a1'')) None,
        Called AppNewIncident (new_incident_full (sample_alert ''a1'')) None]
   \<and> console (fst (state_of (notify sample_ext ''new_incident''
       (new_incident_full (sample_alert ''a1'')) (crowded_dashboard, []))))
     = [''[WS] Listener error for new_incident: boom'']
   \<and> alerts (fst (state_of (notify sample_ext ''new_incident''
       (new_incident_full (sample_alert ''a1'')) (crowded_dashboard, []))))
     = [sample_alert ''a1'']
   \<and> document (fst (state_of (notify sample_ext ''new_incident''
       (new_incident_full (sample_alert ''a1'')) (crowded_dashboard, [])))) AlertsContainer
     = Some (AlertItems [sample_alert ''a1''])
   \<and> markerLayer (fst (state_of (notify sample_ext ''new_incident''
       (new_incident_full (sample_alert ''a1'')) (crowded_dashboard, []))))
     = Some [sample_incident]
   \<and> listeners (fst (state_of (notify sample_ext ''new_incident''
       (new_incident_full (sample_alert ''a1'')) (crowded_dashboard, []))))
     = listeners crowded_dashboard
   \<and> dispatched (snd (state_of (notify sample_ext ''new_incident''
       (new_incident_full (sample_alert ''a2''))
       (state_of (notify sample_ext ''new_incident'' (new_incident_full (sample_alert ''a1''))
         (crowded_dashboard, []))))))
     = [(Foreign 0, new_incident_full (sample_alert ''a1'')),
        (AlertsNewIncident, new_incident_full (sample_alert ''a1'')),
        (AppNewIncident, new_incident_full (sample_alert ''a1'')),
        (Foreign 0, new_incident_full (sample_alert ''a2'')),
        (AlertsNewIncident, new_incident_full (sample_alert ''a2'')),
        (AppNewIncident, new_incident_full (sample_alert ''a2''))]
   \<and> alerts (fst (state_of (notify sample_ext ''new_incident''
       (new_incident_full (sample_alert ''a2''))
       (state_of (notify sample_ext ''new_incident'' (new_incident_full (sample_alert ''a1''))
         (crowded_dashboard, []))))))
     = [sample_alert ''a2'', sample_alert ''a1'']"
proof -
  let ?d = "new_incident_full (sample_alert ''a1'')"
  let ?d2 = "new_incident_full (sample_alert ''a2'')"
  let ?cbs = "[Foreign 0, AlertsNewIncident, AppNewIncident]"
  let ?w1 = "state_of (notify sample_ext ''new_incident'' ?d (crowded_dashboard, []))"
  let ?w2 = "state_of (notify sample_ext ''new_incident'' ?d2 ?w1)"
  have registered_now: "listeners (fst (crowded_dashboard, [])) ''new_incident'' = Some ?cbs"
    by (simp add: crowded_dashboard_eq)
  have throws: "behaviour sample_ext (Foreign 0) ?d crowded_dashboard
      = Throw ''boom'' crowded_dashboard"
    by (simp add: behaviour_def sample_ext_def)
  have frame: "\<forall>cb\<in>set ?cbs. \<forall>q.
      listeners (state_of (behaviour sample_ext cb ?d q)) = listeners q"
    by (simp add: behaviour_def sample_ext_def)
  note general = dispatch_isolates_handlers [OF registered_now, where ext = sample_ext
      and data = ?d and event' = "''new_incident''" and cbs' = ?cbs and data' = ?d2]
  from general have ret: "returns (notify sample_ext ''new_incident'' ?d (crowded_dashboard, []))"
    by blast
  from general have first: "?w1 = spec_dispatch sample_ext ''new_incident'' ?d ?cbs
      (crowded_dashboard, [])"
    by simp
  have trace: "snd ?w1 = [Called (Foreign 0) ?d (Some ''boom''),
      Called AlertsNewIncident ?d None, Called AppNewIncident ?d None]"
    and logged: "console (fst ?w1) = [''[WS] Listener error for new_incident: boom'']"
    and view: "alerts (fst ?w1) = [sample_alert ''a1'']"
    and shown: "document (fst ?w1) AlertsContainer = Some (AlertItems [sample_alert ''a1''])"
    and marked: "markerLayer (fst ?w1) = Some [sample_incident]"
    by (simp_all add: notify_def listeners_get_def notify_one_def behaviour_def sample_ext_def
        alerts_on_new_incident_def app_on_new_incident_def new_incident_full_def no_fields_def
        addIncidentMarkers_def prependAlert_def Let_def render_def set_content_def
        console_line_def crowded_dashboard_eq static_document_def)
  note last = general [THEN conjunct2, THEN conjunct2, THEN conjunct2, THEN conjunct2,
      THEN conjunct2, THEN conjunct2, THEN conjunct2]
  have kept: "listeners (fst ?w1) = listeners crowded_dashboard"
    using last [THEN mp, OF frame] by simp
  then have registered_later: "listeners (fst ?w1) ''new_incident'' = Some ?cbs"
    using registered_now by simp
  from general registered_later
  have again: "dispatched (snd ?w2)
     = dispatched (snd (crowded_dashboard, [])) @ map (\<lambda>cb. (cb, ?d)) ?cbs
        @ map (\<lambda>cb. (cb, ?d2)) ?cbs"
    and second: "notify sample_ext ''new_incident'' ?d2 ?w1
     = Normal (spec_dispatch sample_ext ''new_incident'' ?d2 ?cbs
         (spec_dispatch sample_ext ''new_incident'' ?d ?cbs (crowded_dashboard, [])))"
    by blast+
  have step2: "alerts (fst (spec_dispatch sample_ext ''new_incident'' ?d2 ?cbs w))
      = take 30 (sample_alert ''a2'' # alerts (fst w))" for w
    by (simp add: spec_dispatch_def spec_isolated_call_def behaviour_def sample_ext_def
        alerts_on_new_incident_def app_on_new_incident_def new_incident_full_def no_fields_def
        addIncidentMarkers_def alerts_prependAlert split: option.split)
  have twice: "dispatched (snd ?w2)
     = [(Foreign 0, ?d), (AlertsNewIncident, ?d), (AppNewIncident, ?d),
        (Foreign 0, ?d2), (AlertsNewIncident, ?d2), (AppNewIncident, ?d2)]"
    unfolding again by simp
  have view2: "alerts (fst ?w2) = [sample_alert ''a2'', sample_alert ''a1'']"
  proof -
    have "alerts (fst ?w2) = alerts (fst (spec_dispatch sample_ext ''new_incident'' ?d2 ?cbs
        (spec_dispatch sample_ext ''new_incident'' ?d ?cbs (crowded_dashboard, []))))"
      by (simp only: second state_of.simps)
    also have "\<dots> = take 30 (sample_alert ''a2'' # alerts (fst ?w1))"
      by (simp only: step2 first)
    finally show ?thesis
      by (simp add: view)
  qed
  from registered_now throws ret trace logged view shown marked kept twice view2
  show ?thesis by blast
qed

section \<open>Facts about the connection\<close>














lemma views_console_line [simp]: "views (console_line s q) = views q"
  by (simp add: views_def console_line_def)

lemma views_updateConnectionUI [simp]: "views (updateConnectionUI b q) = views q"
  by (simp add: views_def updateConnectionUI_def)



lemma transports_connect_times:
  "length (transports ((connect ^^ n) p)) = length (transports p) + n"
  by (induction n) (simp_all add: connect_def)

text \<open>
  C7, as the code has it. \<^verbatim>\<open>connect()\<close> asks nothing about the socket it holds: every call
  opens one more socket, with automatic reconnection every 2000 ms for at most 20
  attempts and the seven handlers, and makes it the module's socket. The sockets opened
  before stay as they are, so \<open>n\<close> calls leave \<open>n\<close> more sockets; the views and the
  registry are not touched. A second call therefore never leaves what a single call
  leaves, in any state: there is one socket more, the module holds the new one, and the
  socket of the first call is still there, unchanged.
\<close>

theorem connect_opens_another:
  "transports (connect p)
     = transports p @
       [\<lparr>reconnection = True, reconnectionDelay = 2000, reconnectionAttempts = 20,
         registered = [''connect'', ''disconnect'', ''connection_ack'', ''new_incident'',
           ''alert_update'', ''heatmap_update'', ''stats_update''],
         outbox = []\<rparr>]
   \<and> socket (connect p) = Some (length (transports p))
   \<and> length (transports ((connect ^^ n) p)) = length (transports p) + n
   \<and> views (connect p) = views p
   \<and> listeners (connect p) = listeners p
   \<and> length (transports (connect (connect p))) = length (transports (connect p)) + 1
   \<and> socket (connect (connect p)) = Some (length (transports p) + 1)
   \<and> transports (connect (connect p)) ! length (transports p)
       = transports (connect p) ! length (transports p)
   \<and> connect (connect p) \<noteq> connect p"
proof -
  have old: "transports (connect p)
     = transports p @
       [\<lparr>reconnection = True, reconnectionDelay = 2000, reconnectionAttempts = 20,
         registered = [''connect'', ''disconnect'', ''connection_ack'', ''new_incident'',
           ''alert_update'', ''heatmap_update'', ''stats_update''],
         outbox = []\<rparr>]
   \<and> socket (connect p) = Some (length (transports p))
   \<and> length (transports ((connect ^^ n) p)) = length (transports p) + n
   \<and> views (connect p) = views p
   \<and> listeners (connect p) = listeners p"
    by (simp add: transports_connect_times) (simp add: connect_def io_def views_def)
  have more: "length (transports (connect (connect p))) = length (transports (connect p)) + 1"
    by (simp add: connect_def)
  have current: "socket (connect (connect p)) = Some (length (transports p) + 1)"
    by (simp add: connect_def)
  have earlier: "transports (connect (connect p)) ! length (transports p)
       = transports (connect p) ! length (transports p)"
    by (simp add: connect_def nth_append)
  have differ: "connect (connect p) \<noteq> connect p"
  proof
    assume "connect (connect p) = connect p"
    then have "length (transports (connect (connect p))) = length (transports (connect p))"
      by simp
    then show False using more by simp
  qed
  from old more current earlier differ show ?thesis by blast
qed

text \<open>
  Two calls leave two sockets open and the module holding the second; one call leaves
  one.
\<close>

theorem connect_twice_counterexample:
  "connect (connect initial_page) \<noteq> connect initial_page"
proof
  assume "connect (connect initial_page) = connect initial_page"
  then have "length (transports (connect (connect initial_page)))
      = length (transports (connect initial_page))"
    by simp
  then show False
    by (simp add: connect_def)
qed

section \<open>Facts about the heat map\<close>

lemma updateHeatmap_replaces:
  assumes "heatLayer p = Some layer"
  shows "heatLayer (updateHeatmap (Some pts) p)
    = Some (map (\<lambda>pt. (lat pt, lng pt, intensity_or_default (intensity pt))) pts)"
  using assms by (simp add: heatLayer_updateHeatmap)

lemma intensity_kept:
  assumes "x \<noteq> 0"
  shows "intensity_or_default (Some x) = x"
  using assms by (simp add: intensity_or_default_def)

text \<open>
  C9 at a point of intensity 0. Pushed in a \<^verbatim>\<open>heatmap_update\<close> frame or returned by a
  pull, the point reaches the layer with intensity 0.5: \<^verbatim>\<open>point.intensity || 0.5\<close> takes
  the default for zero as it does for a missing field.
\<close>

theorem zero_intensity_defaulted:
  "heatLayer (state_of (app_on_heatmap_update (Obj (no_fields\<lparr>d_heatmap := Some [sample_point 0]\<rparr>))
       (map_init initial_page)))
     = Some [(34, -118, 0.5)]
   \<and> heatLayer (state_of (loadHeatmapData_settle (heatmap_snapshot [sample_point 0])
       (loadHeatmapData 24 (map_init initial_page))))
     = Some [(34, -118, 0.5)]
   \<and> intensity_or_default (intensity (sample_point 0)) \<noteq> 0"
  by (simp add: app_on_heatmap_update_def loadHeatmapData_settle_def loadHeatmapData_try_def
      heatmap_snapshot_def heatLayer_updateHeatmap map_init_def sample_point_def
      intensity_or_default_def no_fields_def)

section \<open>Facts about the registry\<close>

lemma on_missing_kind:
  assumes "listeners p event = None" and "event \<notin> set object_prototype_keys"
  shows "on event cb p = Normal p"
  using assms by (simp add: on_def listeners_get_def)

text \<open>
  C10 at the event name \<^verbatim>\<open>toString\<close>. It is none of the five kinds, yet
  \<^verbatim>\<open>listeners['toString']\<close> is the function every object inherits, so the guard of \<^verbatim>\<open>on\<close>
  passes and the call of \<^verbatim>\<open>push\<close> on it throws; \<^verbatim>\<open>off\<close> and \<^verbatim>\<open>_notify\<close> throw at the same
  guard.
\<close>

theorem on_inherited_kind_throws:
  "listeners initial_page ''toString'' = None
   \<and> on ''toString'' (Foreign 0) initial_page = Throw ''TypeError'' initial_page
   \<and> off ''toString'' (Foreign 0) initial_page = Throw ''TypeError'' initial_page
   \<and> notify sample_ext ''toString'' Undefined (initial_page, [])
     = Throw ''TypeError'' (initial_page, [])"
  by (simp add: on_def off_def notify_def listeners_get_def object_prototype_keys_def
      initial_page_def initial_listeners_def)

end
